theory Spec2Isabelle
  imports Main "HOL-Library.List_Lexorder"
begin

section \<open>Python values\<close>

text \<open>
  A Python \<^verbatim>\<open>str\<close> is a sequence of Unicode code points; slicing counts code points
  and \<^verbatim>\<open><=\<close> compares them lexicographically, a proper prefix being smaller. Both hold
  of \<open>nat list\<close> under the lexicographic order of \<open>List_Lexorder\<close>. The function \<open>py\<close>
  writes a literal; the apostrophe (39) and the backslash (92) are written as code
  points.
\<close>

type_synonym pystr = "nat list"

definition py :: "string \<Rightarrow> pystr" where
  "py s = map of_char s"

datatype py_error = IndexError | KeyError | ValueError | AttributeError

text \<open>
  What a run leaves behind: the texts handed to \<^verbatim>\<open>print\<close>, one per call and in call
  order (each is followed by a newline on standard output), and the exception that ended
  the run, if any.
\<close>

record run =
  stdout :: "pystr list"
  raised :: "py_error option"

text \<open>\<^verbatim>\<open>xs[i]\<close> for a non-negative index.\<close>

definition index :: "'a list \<Rightarrow> nat \<Rightarrow> py_error + 'a" where
  "index xs i = (if i < length xs then Inr (xs ! i) else Inl IndexError)"

section \<open>The parsed document\<close>

text \<open>
  Both scripts hand the fetched text to \<^verbatim>\<open>BeautifulSoup(html_text, 'html.parser')\<close> and
  work on the tree it returns. Fetching, decoding and parsing belong to libraries; a run
  starts here from the tree. A tag has a name, a dictionary of attributes and its
  contents. The parser stores \<^verbatim>\<open>class\<close> as the list of its whitespace-separated
  tokens and every other attribute read here (\<^verbatim>\<open>id\<close>, \<^verbatim>\<open>data-*\<close>) as one string, so the
  class tokens are a field of their own. Text nodes are left out: \<^verbatim>\<open>find\<close> and
  \<^verbatim>\<open>find_all\<close> with a tag name return tags only, and neither script reads text. The soup
  itself is the root tag.
\<close>

datatype tag = Tag (tag_name: pystr) (tag_class: "pystr list")
  (tag_attrs: "pystr \<rightharpoonup> pystr") (tag_contents: "tag list")

text \<open>All tags below a tag, in document order (a tag before its contents).\<close>

fun descendants :: "tag \<Rightarrow> tag list" where
  "descendants (Tag n c a ts) = concat (map (\<lambda>t. t # descendants t) ts)"

text \<open>
  \<^verbatim>\<open>t.find_all(name)\<close> and \<^verbatim>\<open>t.find_all(name, class_=c)\<close>: the descendants with that
  name, in document order; with a class, those one of whose class tokens is \<^verbatim>\<open>c\<close>.
\<close>

definition find_all :: "tag \<Rightarrow> pystr \<Rightarrow> pystr option \<Rightarrow> tag list" where
  "find_all t name cls =
     filter (\<lambda>d. tag_name d = name \<and>
                 (case cls of None \<Rightarrow> True | Some c \<Rightarrow> c \<in> set (tag_class d)))
            (descendants t)"

text \<open>\<^verbatim>\<open>t.find(name, class_=c)\<close>: the first result of \<^verbatim>\<open>find_all\<close>, or \<^verbatim>\<open>None\<close>.\<close>

definition find_tag :: "tag \<Rightarrow> pystr \<Rightarrow> pystr option \<Rightarrow> tag option" where
  "find_tag t name cls = (case find_all t name cls of [] \<Rightarrow> None | r # _ \<Rightarrow> Some r)"

text \<open>
  \<^verbatim>\<open>li[key]\<close> raises \<^verbatim>\<open>KeyError\<close> for a missing attribute; \<^verbatim>\<open>li.get(key, None)\<close> is
  \<open>tag_attrs li key\<close>.
\<close>

definition getitem :: "tag \<Rightarrow> pystr \<Rightarrow> py_error + pystr" where
  "getitem li key = (case tag_attrs li key of None \<Rightarrow> Inl KeyError | Some v \<Rightarrow> Inr v)"

section \<open>make-shorthand-map.py\<close>

text \<open>The f-string \<^verbatim>\<open>f"['{typst}', '{shorthand}'],"\<close>.\<close>

definition shorthand_line :: "pystr \<Rightarrow> pystr \<Rightarrow> pystr" where
  "shorthand_line typst shorthand =
     py ''['' @ [39] @ typst @ [39] @ py '', '' @ [39] @ shorthand @ [39] @ py ''],''"

text \<open>
  The loop over \<^verbatim>\<open>li_list\<close>, with what has been printed so far: \<^verbatim>\<open>print\<close> writes at
  once, so the lines of the items before a failing one stay printed. \<^verbatim>\<open>html.unescape\<close>
  belongs to the standard library and is a parameter.
\<close>

fun shorthand_loop :: "(pystr \<Rightarrow> pystr) \<Rightarrow> tag list \<Rightarrow> pystr list \<Rightarrow> run" where
  "shorthand_loop unescape [] out = \<lparr>stdout = out, raised = None\<rparr>"
| "shorthand_loop unescape (li # li_list) out =
     (case getitem li (py ''id'') of
        Inl e \<Rightarrow> \<lparr>stdout = out, raised = Some e\<rparr>
      | Inr i \<Rightarrow>
          (let typst = drop 7 i in
           case getitem li (py ''data-math-shorthand'') of
             Inl e \<Rightarrow> \<lparr>stdout = out, raised = Some e\<rparr>
           | Inr s \<Rightarrow>
               (let shorthand = unescape s in
                shorthand_loop unescape li_list (out @ [shorthand_line typst shorthand]))))"

definition shorthand_main :: "(pystr \<Rightarrow> pystr) \<Rightarrow> tag \<Rightarrow> run" where
  "shorthand_main unescape soup =
     (let ul_list = find_all soup (py ''ul'') (Some (py ''symbol-grid'')) in
      case index ul_list 1 of
        Inl e \<Rightarrow> \<lparr>stdout = [], raised = Some e\<rparr>
      | Inr ul_shorthands_math \<Rightarrow>
          shorthand_loop unescape (find_all ul_shorthands_math (py ''li'') None) [])"

section \<open>make-symbol-map.py\<close>

text \<open>
  \<^verbatim>\<open>symbol_map\<close> is a dictionary, which keeps its keys in insertion order: an
  association list with distinct keys. \<^verbatim>\<open>d[k] = v\<close> replaces the value of a present key
  in place and appends an absent one.
\<close>

type_synonym dict = "(pystr \<times> pystr) list"

definition contains :: "dict \<Rightarrow> pystr \<Rightarrow> bool" where
  "contains d k = (k \<in> set (map fst d))"

fun setitem :: "dict \<Rightarrow> pystr \<Rightarrow> pystr \<Rightarrow> dict" where
  "setitem [] k v = [(k, v)]"
| "setitem (p # d) k v = (if fst p = k then (k, v) # d else p # setitem d k v)"

definition dict_getitem :: "dict \<Rightarrow> pystr \<Rightarrow> py_error + pystr" where
  "dict_getitem d k = (case map_of d k of None \<Rightarrow> Inl KeyError | Some v \<Rightarrow> Inr v)"

text \<open>
  One pass of the loop body (lines 20 to 28). \<^verbatim>\<open>int\<close> is a builtin and is a parameter:
  \<open>None\<close> where it raises \<^verbatim>\<open>ValueError\<close>.
\<close>

definition symbol_item :: "(pystr \<Rightarrow> int option) \<Rightarrow> tag \<Rightarrow> dict \<Rightarrow> py_error + dict" where
  "symbol_item pyint li symbol_map =
     (let latex = tag_attrs li (py ''data-latex-name'') in
      case getitem li (py ''id'') of
        Inl e \<Rightarrow> Inl e
      | Inr i \<Rightarrow>
          (let typst = drop 7 i in
           case getitem li (py ''data-codepoint'') of
             Inl e \<Rightarrow> Inl e
           | Inr c \<Rightarrow>
               (case pyint c of
                  None \<Rightarrow> Inl ValueError
                | Some unicode \<Rightarrow>
                    (case latex of
                       None \<Rightarrow> Inr symbol_map
                     | Some l \<Rightarrow>
                         if \<not> contains symbol_map l then Inr (setitem symbol_map l typst)
                         else Inr symbol_map))))"

fun symbol_loop :: "(pystr \<Rightarrow> int option) \<Rightarrow> tag list \<Rightarrow> dict \<Rightarrow> py_error + dict" where
  "symbol_loop pyint [] symbol_map = Inr symbol_map"
| "symbol_loop pyint (li # li_list) symbol_map =
     (case symbol_item pyint li symbol_map of
        Inl e \<Rightarrow> Inl e
      | Inr symbol_map' \<Rightarrow> symbol_loop pyint li_list symbol_map')"

text \<open>The comprehension \<^verbatim>\<open>[(key, symbol_map[key]) for key in sorted_keys]\<close>.\<close>

fun pairs_of :: "dict \<Rightarrow> pystr list \<Rightarrow> py_error + (pystr \<times> pystr) list" where
  "pairs_of symbol_map [] = Inr []"
| "pairs_of symbol_map (key # keys) =
     (case dict_getitem symbol_map key of
        Inl e \<Rightarrow> Inl e
      | Inr v \<Rightarrow>
          (case pairs_of symbol_map keys of
             Inl e \<Rightarrow> Inl e
           | Inr ps \<Rightarrow> Inr ((key, v) # ps)))"

text \<open>
  Lines 15 to 32: the loop from the empty dictionary, then the keys sorted by
  \<^verbatim>\<open>sorted(..., key=str.lower)\<close>, a stable sort, as \<open>sort_key\<close> is. \<^verbatim>\<open>str.lower\<close> is a
  builtin and is a parameter.
\<close>

definition sorted_symbol_map ::
  "(pystr \<Rightarrow> pystr) \<Rightarrow> (pystr \<Rightarrow> int option) \<Rightarrow> tag list \<Rightarrow> py_error + (pystr \<times> pystr) list" where
  "sorted_symbol_map lower pyint li_list =
     (case symbol_loop pyint li_list [] of
        Inl e \<Rightarrow> Inl e
      | Inr symbol_map \<Rightarrow>
          (let sorted_keys = sort_key lower (map fst symbol_map) in
           pairs_of symbol_map sorted_keys))"

text \<open>The f-string of line 34, with its four leading spaces.\<close>

definition symbol_line :: "pystr \<Rightarrow> pystr \<Rightarrow> pystr" where
  "symbol_line latex typst =
     py ''    ['' @ [39] @ drop 1 latex @ [39] @ py '', '' @ [39] @ typst @ [39] @ py ''],''"

definition symbol_run :: "(pystr \<Rightarrow> pystr) \<Rightarrow> (pystr \<Rightarrow> int option) \<Rightarrow> tag list \<Rightarrow> run" where
  "symbol_run lower pyint li_list =
     (case sorted_symbol_map lower pyint li_list of
        Inl e \<Rightarrow> \<lparr>stdout = [], raised = Some e\<rparr>
      | Inr ps \<Rightarrow> \<lparr>stdout = map (\<lambda>(latex, typst). symbol_line latex typst) ps, raised = None\<rparr>)"

text \<open>
  Lines 13 and 14: \<^verbatim>\<open>find\<close> returns \<^verbatim>\<open>None\<close> when no list matches, and calling
  \<^verbatim>\<open>find_all\<close> on \<^verbatim>\<open>None\<close> raises \<^verbatim>\<open>AttributeError\<close>.
\<close>

definition symbol_main :: "(pystr \<Rightarrow> pystr) \<Rightarrow> (pystr \<Rightarrow> int option) \<Rightarrow> tag \<Rightarrow> run" where
  "symbol_main lower pyint soup =
     (case find_tag soup (py ''ul'') (Some (py ''symbol-grid'')) of
        None \<Rightarrow> \<lparr>stdout = [], raised = Some AttributeError\<rparr>
      | Some ul \<Rightarrow> symbol_run lower pyint (find_all ul (py ''li'') None))"

section \<open>Fragments of the library functions\<close>

text \<open>
  The theorems below hold for every \<open>unescape\<close>, \<open>lower\<close> and \<open>pyint\<close>. To evaluate a run on
  a concrete page, the following fragments stand for them. Each agrees with the library
  function on the ASCII inputs it is applied to here: \<open>ascii_unescape\<close> decodes the
  references \<^verbatim>\<open>&lt;\<close>, \<^verbatim>\<open>&gt;\<close>, \<^verbatim>\<open>&amp;\<close> and \<^verbatim>\<open>&quot;\<close> and copies every other code point;
  \<open>ascii_lower\<close> maps \<^verbatim>\<open>A\<close> to \<^verbatim>\<open>Z\<close> onto \<^verbatim>\<open>a\<close> to \<^verbatim>\<open>z\<close>; \<open>ascii_int\<close> reads a nonempty
  string of the digits \<^verbatim>\<open>0\<close> to \<^verbatim>\<open>9\<close>.
\<close>

definition entity :: "pystr \<Rightarrow> (pystr \<times> nat) option" where
  "entity s =
     (if take 3 s = py ''lt;'' then Some (py ''<'', 3)
      else if take 3 s = py ''gt;'' then Some (py ''>'', 3)
      else if take 4 s = py ''amp;'' then Some (py ''&'', 4)
      else if take 5 s = py ''quot;'' then Some ([34], 5)
      else None)"

fun unescape_from :: "nat \<Rightarrow> pystr \<Rightarrow> pystr" where
  "unescape_from k [] = []"
| "unescape_from k (c # s) =
     (if 0 < k then unescape_from (k - 1) s
      else if c = 38 then
        (case entity s of
           Some (r, n) \<Rightarrow> r @ unescape_from n s
         | None \<Rightarrow> c # unescape_from 0 s)
      else c # unescape_from 0 s)"

definition ascii_unescape :: "pystr \<Rightarrow> pystr" where
  "ascii_unescape s = unescape_from 0 s"

definition ascii_lower :: "pystr \<Rightarrow> pystr" where
  "ascii_lower s = map (\<lambda>c. if 65 \<le> c \<and> c \<le> 90 then c + 32 else c) s"

definition ascii_int :: "pystr \<Rightarrow> int option" where
  "ascii_int s =
     (if s \<noteq> [] \<and> (\<forall>c \<in> set s. 48 \<le> c \<and> c \<le> 57)
      then Some (foldl (\<lambda>a c. 10 * a + int (c - 48)) 0 s) else None)"

section \<open>Example pages\<close>

text \<open>
  The item of the source's comment,
  \<^verbatim>\<open><li id="symbol-arrow.r" data-math-shorthand="-&gt;"><button>...</button></li>\<close>,
  as the only item of the second grid of a page; the first grid holds a markup shorthand.
\<close>

definition li_arrow :: tag where
  "li_arrow = Tag (py ''li'') []
     [py ''id'' \<mapsto> py ''symbol-arrow.r'', py ''data-math-shorthand'' \<mapsto> py ''-&gt;'']
     [Tag (py ''button'') [] Map.empty []]"

definition li_dash :: tag where
  "li_dash = Tag (py ''li'') []
     [py ''id'' \<mapsto> py ''symbol-dash.en'', py ''data-markup-shorthand'' \<mapsto> py ''--'']
     [Tag (py ''button'') [] Map.empty []]"

definition arrow_page :: tag where
  "arrow_page = Tag (py ''[document]'') [] Map.empty
     [Tag (py ''ul'') [py ''symbol-grid''] Map.empty [li_dash],
      Tag (py ''ul'') [py ''symbol-grid''] Map.empty [li_arrow]]"

text \<open>
  Further pages: one whose second grid, nested in a \<^verbatim>\<open>div\<close>, repeats an item; one with a
  single grid; one whose second grid has an item without \<^verbatim>\<open>data-math-shorthand\<close>.
\<close>

definition li_gteq :: tag where
  "li_gteq = Tag (py ''li'') []
     [py ''id'' \<mapsto> py ''symbol-gt.eq'', py ''data-math-shorthand'' \<mapsto> py ''&gt;='']
     [Tag (py ''button'') [] Map.empty []]"

definition li_plain :: tag where
  "li_plain = Tag (py ''li'') [] [py ''id'' \<mapsto> py ''symbol-plus''] []"

definition repeat_page :: tag where
  "repeat_page = Tag (py ''[document]'') [] Map.empty
     [Tag (py ''ul'') [py ''symbol-grid''] Map.empty [li_dash],
      Tag (py ''div'') [] Map.empty
        [Tag (py ''ul'') [py ''symbol-grid''] Map.empty [li_gteq, li_arrow, li_gteq]]]"

definition one_grid_page :: tag where
  "one_grid_page = Tag (py ''[document]'') [] Map.empty
     [Tag (py ''ul'') [py ''symbol-grid''] Map.empty [li_arrow],
      Tag (py ''ul'') [py ''other''] Map.empty [li_gteq]]"

definition broken_page :: tag where
  "broken_page = Tag (py ''[document]'') [] Map.empty
     [Tag (py ''ul'') [py ''symbol-grid''] Map.empty [li_dash],
      Tag (py ''ul'') [py ''symbol-grid''] Map.empty [li_arrow, li_plain, li_gteq]]"

text \<open>
  Pages for the symbol extractor, built from the item of the source's comment,
  \<^verbatim>\<open><li id="symbol-brace.r.double" data-latex-name="\rBrace" data-codepoint="10628">\<close>:
  \<open>symbol_li\<close> carries all three attributes (the backslash is prepended to the LaTeX name),
  \<open>bare_li\<close> has no \<^verbatim>\<open>data-codepoint\<close>, \<open>unnamed_li\<close> no \<^verbatim>\<open>data-latex-name\<close>, \<open>li_anon\<close> only
  a \<^verbatim>\<open>data-codepoint\<close>, and \<open>li_plain\<close> above only an \<^verbatim>\<open>id\<close>. \<open>equiv_page\<close> holds the two items
  that share \<^verbatim>\<open>\equiv\<close>; \<open>recoded_equiv_page\<close> differs from it in the code points only.
\<close>

definition grid :: "tag list \<Rightarrow> tag" where
  "grid items = Tag (py ''ul'') [py ''symbol-grid''] Map.empty items"

definition symbol_li :: "string \<Rightarrow> string \<Rightarrow> string \<Rightarrow> tag" where
  "symbol_li i latex c = Tag (py ''li'') []
     [py ''id'' \<mapsto> py i, py ''data-latex-name'' \<mapsto> 92 # py latex, py ''data-codepoint'' \<mapsto> py c]
     [Tag (py ''button'') [] Map.empty []]"

definition bare_li :: "string \<Rightarrow> string \<Rightarrow> tag" where
  "bare_li i latex = Tag (py ''li'') []
     [py ''id'' \<mapsto> py i, py ''data-latex-name'' \<mapsto> 92 # py latex] []"

definition unnamed_li :: "string \<Rightarrow> string \<Rightarrow> tag" where
  "unnamed_li i c = Tag (py ''li'') []
     [py ''id'' \<mapsto> py i, py ''data-codepoint'' \<mapsto> py c] []"

definition equiv_page :: tag where
  "equiv_page = Tag (py ''[document]'') [] Map.empty
     [grid [symbol_li ''symbol-equal'' ''equiv'' ''61'',
            symbol_li ''symbol-equiv.triple'' ''equiv'' ''8803'']]"

definition bare_equiv_page :: tag where
  "bare_equiv_page = Tag (py ''[document]'') [] Map.empty
     [grid [bare_li ''symbol-equal'' ''equiv'', bare_li ''symbol-equiv.triple'' ''equiv'']]"

definition greek_page :: tag where
  "greek_page = Tag (py ''[document]'') [] Map.empty
     [grid [symbol_li ''symbol-pi'' ''pi'' ''960'',
            symbol_li ''symbol-Delta'' ''Delta'' ''916'',
            unnamed_li ''symbol-dash.en'' ''8211'',
            symbol_li ''symbol-alpha'' ''alpha'' ''945'']]"

definition recoded_equiv_page :: tag where
  "recoded_equiv_page = Tag (py ''[document]'') [] Map.empty
     [grid [symbol_li ''symbol-equal'' ''equiv'' ''1'',
            symbol_li ''symbol-equiv.triple'' ''equiv'' ''2'']]"

definition no_grid_page :: tag where
  "no_grid_page = Tag (py ''[document]'') [] Map.empty
     [Tag (py ''ul'') [py ''other''] Map.empty [symbol_li ''symbol-equal'' ''equiv'' ''61'']]"

definition li_anon :: tag where
  "li_anon = Tag (py ''li'') [] [py ''data-codepoint'' \<mapsto> py ''U+2261''] []"

definition anon_page :: tag where
  "anon_page = Tag (py ''[document]'') [] Map.empty [grid [li_anon]]"

definition badcode_page :: tag where
  "badcode_page = Tag (py ''[document]'') [] Map.empty
     [grid [symbol_li ''symbol-equal'' ''equiv'' ''61'',
            symbol_li ''symbol-equiv'' ''equiv'' ''U+2261'',
            symbol_li ''symbol-pi'' ''pi'' ''960'']]"

definition missing_page :: tag where
  "missing_page = Tag (py ''[document]'') [] Map.empty
     [grid [symbol_li ''symbol-pi'' ''pi'' ''960'', li_plain, symbol_li ''symbol-alpha'' ''alpha'' ''945'']]"

definition hex_page :: tag where
  "hex_page = Tag (py ''[document]'') [] Map.empty
     [grid [symbol_li ''symbol-pi'' ''pi'' ''960'', unnamed_li ''symbol-minus'' ''0x2212'']]"

section \<open>Items the loop bodies pass\<close>

text \<open>
  An item passes the body of the shorthand loop when it carries both attributes the body
  subscripts; \<open>shorthand_of\<close> is the text the body prints for such an item.
\<close>

abbreviation shorthand_ok :: "tag \<Rightarrow> bool" where
  "shorthand_ok li \<equiv>
     tag_attrs li (py ''id'') \<noteq> None \<and> tag_attrs li (py ''data-math-shorthand'') \<noteq> None"

abbreviation shorthand_of :: "(pystr \<Rightarrow> pystr) \<Rightarrow> tag \<Rightarrow> pystr" where
  "shorthand_of unescape li \<equiv>
     shorthand_line (drop 7 (the (tag_attrs li (py ''id''))))
       (unescape (the (tag_attrs li (py ''data-math-shorthand''))))"

text \<open>
  An item passes lines 20 to 22 of the symbol loop when it carries \<^verbatim>\<open>id\<close> and a
  \<^verbatim>\<open>data-codepoint\<close> that \<^verbatim>\<open>int\<close> accepts. \<open>latex_of\<close> and \<open>typst_of\<close> are the values the body
  names \<^verbatim>\<open>latex\<close> and \<^verbatim>\<open>typst\<close>.
\<close>

abbreviation symbol_ok :: "(pystr \<Rightarrow> int option) \<Rightarrow> tag \<Rightarrow> bool" where
  "symbol_ok pyint li \<equiv>
     tag_attrs li (py ''id'') \<noteq> None \<and>
     (case tag_attrs li (py ''data-codepoint'') of None \<Rightarrow> False | Some c \<Rightarrow> pyint c \<noteq> None)"

abbreviation latex_of :: "tag \<Rightarrow> pystr option" where
  "latex_of li \<equiv> tag_attrs li (py ''data-latex-name'')"

abbreviation typst_of :: "tag \<Rightarrow> pystr" where
  "typst_of li \<equiv> drop 7 (the (tag_attrs li (py ''id'')))"

section \<open>Evaluation\<close>

text \<open>The defining equations that evaluate a run on one of the example pages.\<close>

lemmas pages =
  arrow_page_def repeat_page_def one_grid_page_def broken_page_def
  li_arrow_def li_dash_def li_gteq_def li_plain_def

lemmas evals =
  find_all_def index_def py_def shorthand_line_def ascii_unescape_def entity_def

lemmas symbol_pages =
  grid_def symbol_li_def bare_li_def unnamed_li_def equiv_page_def bare_equiv_page_def greek_page_def
  recoded_equiv_page_def no_grid_page_def li_anon_def anon_page_def badcode_page_def
  missing_page_def hex_page_def li_plain_def

lemmas symbol_evals =
  find_tag_def find_all_def py_def symbol_main_def symbol_run_def sorted_symbol_map_def
  symbol_item_def getitem_def contains_def dict_getitem_def symbol_line_def
  ascii_int_def ascii_lower_def

section \<open>The shorthand extractor\<close>

text \<open>
  The loop prints the lines of the items it passes and stops, with \<^verbatim>\<open>KeyError\<close>, at the
  first item that lacks an attribute.
\<close>

lemma shorthand_loop_prefix:
  "\<forall>li \<in> set pre. shorthand_ok li \<Longrightarrow>
   shorthand_loop U (pre @ rest) out = shorthand_loop U rest (out @ map (shorthand_of U) pre)"
  by (induction pre arbitrary: out) (auto simp: getitem_def)

lemma shorthand_loop_stop:
  "\<not> shorthand_ok li \<Longrightarrow>
   shorthand_loop U (li # post) out = \<lparr>stdout = out, raised = Some KeyError\<rparr>"
  by (auto simp: getitem_def split: option.splits)

lemma shorthand_loop_all:
  "\<forall>li \<in> set li_list. shorthand_ok li \<Longrightarrow>
   shorthand_loop U li_list out = \<lparr>stdout = out @ map (shorthand_of U) li_list, raised = None\<rparr>"
  using shorthand_loop_prefix [of li_list U "[]" out] by simp

lemma shorthand_loop_takeWhile:
  "stdout (shorthand_loop U li_list out) = out @ map (shorthand_of U) (takeWhile shorthand_ok li_list)"
proof (cases "\<forall>li \<in> set li_list. shorthand_ok li")
  case True
  then have whole: "takeWhile shorthand_ok li_list = li_list"
    by simp
  show ?thesis
    unfolding shorthand_loop_all [OF True] whole by simp
next
  case False
  then have "\<exists>x \<in> set li_list. \<not> shorthand_ok x" by blast
  from split_list_first_prop [OF this]
  obtain pre li post where split: "li_list = pre @ li # post"
    and pre: "\<forall>x \<in> set pre. shorthand_ok x" and bad: "\<not> shorthand_ok li"
    by blast
  have tw: "takeWhile shorthand_ok (pre @ li # post) = pre"
    using pre bad by (simp add: takeWhile_append2 del: not_None_eq)
  show ?thesis
    unfolding split tw shorthand_loop_prefix [OF pre] shorthand_loop_stop [OF bad] by simp
qed

text \<open>
  C5. When the second symbol-grid list of the page has exactly one item, with \<^verbatim>\<open>id\<close> \<open>i\<close> and
  \<^verbatim>\<open>data-math-shorthand\<close> \<open>s\<close>, the run prints exactly one line, built from \<open>i\<close> without its
  first seven code points and from the unescaped \<open>s\<close>, and raises nothing. For
  \<^verbatim>\<open>id="symbol-arrow.r"\<close> and a shorthand that unescapes to \<^verbatim>\<open>->\<close> the line is
  \<^verbatim>\<open>['arrow.r', '->'],\<close>.
\<close>

theorem shorthand_example:
  assumes "index (find_all soup (py ''ul'') (Some (py ''symbol-grid''))) 1 = Inr ul"
    and "find_all ul (py ''li'') None = [li]"
    and "tag_attrs li (py ''id'') = Some i"
    and "tag_attrs li (py ''data-math-shorthand'') = Some s"
  shows "shorthand_main U soup = \<lparr>stdout = [shorthand_line (drop 7 i) (U s)], raised = None\<rparr> \<and>
         (i = py ''symbol-arrow.r'' \<and> U s = py ''->'' \<longrightarrow>
            stdout (shorthand_main U soup) = [py ''['arrow.r', '->'],''])"
  using assms by (simp add: shorthand_main_def getitem_def shorthand_line_def py_def)

text \<open>
  On \<open>arrow_page\<close>, whose item carries \<^verbatim>\<open>-&gt;\<close> as the markup writes it. (The parser decodes
  references in attribute values itself and hands \<^verbatim>\<open>->\<close> to the script; \<open>s\<close> above is any
  value, so the theorem covers that reading as well.)
\<close>

theorem shorthand_example_witness:
  "index (find_all arrow_page (py ''ul'') (Some (py ''symbol-grid''))) 1 =
     Inr (Tag (py ''ul'') [py ''symbol-grid''] Map.empty [li_arrow]) \<and>
   find_all (Tag (py ''ul'') [py ''symbol-grid''] Map.empty [li_arrow]) (py ''li'') None = [li_arrow] \<and>
   tag_attrs li_arrow (py ''id'') = Some (py ''symbol-arrow.r'') \<and>
   tag_attrs li_arrow (py ''data-math-shorthand'') = Some (py ''-&gt;'') \<and>
   ascii_unescape (py ''-&gt;'') = py ''->'' \<and>
   shorthand_main ascii_unescape arrow_page =
     \<lparr>stdout = [py ''['arrow.r', '->'],''], raised = None\<rparr>"
proof -
  have uls: "index (find_all arrow_page (py ''ul'') (Some (py ''symbol-grid''))) 1 =
     Inr (Tag (py ''ul'') [py ''symbol-grid''] Map.empty [li_arrow])"
    by (simp add: pages evals)
  have lis: "find_all (Tag (py ''ul'') [py ''symbol-grid''] Map.empty [li_arrow]) (py ''li'') None = [li_arrow]"
    by (simp add: pages evals)
  have i: "tag_attrs li_arrow (py ''id'') = Some (py ''symbol-arrow.r'')"
    by (simp add: pages evals)
  have s: "tag_attrs li_arrow (py ''data-math-shorthand'') = Some (py ''-&gt;'')"
    by (simp add: pages evals)
  have u: "ascii_unescape (py ''-&gt;'') = py ''->''"
    by (simp add: evals)
  have line: "shorthand_line (drop 7 (py ''symbol-arrow.r'')) (py ''->'') = py ''['arrow.r', '->'],''"
    by (simp add: evals)
  from shorthand_example [OF uls lis i s, of ascii_unescape] uls lis i s u line
  show ?thesis by simp
qed

text \<open>
  C6. On every page, the lines printed by the shorthand extractor are those of the items
  of the second symbol-grid list, in document order and one per item: of all items when
  each carries both attributes, duplicates included, and otherwise of the items before
  the first one that does not (none when there is no second list). Nothing is sorted or
  held back.
\<close>

theorem shorthand_document_order:
  "stdout (shorthand_main U soup) =
     (case index (find_all soup (py ''ul'') (Some (py ''symbol-grid''))) 1 of
        Inl e \<Rightarrow> []
      | Inr ul \<Rightarrow> map (shorthand_of U) (takeWhile shorthand_ok (find_all ul (py ''li'') None))) \<and>
   (index (find_all soup (py ''ul'') (Some (py ''symbol-grid''))) 1 = Inr ul \<and>
    (\<forall>li \<in> set (find_all ul (py ''li'') None). shorthand_ok li) \<longrightarrow>
      shorthand_main U soup =
        \<lparr>stdout = map (shorthand_of U) (find_all ul (py ''li'') None), raised = None\<rparr>)"
  by (simp add: shorthand_main_def shorthand_loop_takeWhile shorthand_loop_all split: sum.splits)

text \<open>
  On \<open>repeat_page\<close>, whose second grid lists \<^verbatim>\<open>gt.eq\<close>, \<^verbatim>\<open>arrow.r\<close> and \<^verbatim>\<open>gt.eq\<close> again: the
  three lines come out in that order. On \<open>broken_page\<close> the line before the failing item
  is printed, on \<open>one_grid_page\<close> none.
\<close>

theorem shorthand_document_order_witness:
  "index (find_all repeat_page (py ''ul'') (Some (py ''symbol-grid''))) 1 =
     Inr (Tag (py ''ul'') [py ''symbol-grid''] Map.empty [li_gteq, li_arrow, li_gteq]) \<and>
   find_all (Tag (py ''ul'') [py ''symbol-grid''] Map.empty [li_gteq, li_arrow, li_gteq]) (py ''li'') None =
     [li_gteq, li_arrow, li_gteq] \<and>
   shorthand_ok li_gteq \<and> shorthand_ok li_arrow \<and>
   shorthand_main ascii_unescape repeat_page =
     \<lparr>stdout = [py ''['gt.eq', '>='],'', py ''['arrow.r', '->'],'', py ''['gt.eq', '>='],''],
      raised = None\<rparr> \<and>
   stdout (shorthand_main ascii_unescape broken_page) = [py ''['arrow.r', '->'],''] \<and>
   stdout (shorthand_main ascii_unescape one_grid_page) = []"
proof -
  have uls: "index (find_all repeat_page (py ''ul'') (Some (py ''symbol-grid''))) 1 =
     Inr (Tag (py ''ul'') [py ''symbol-grid''] Map.empty [li_gteq, li_arrow, li_gteq])"
    by (simp add: pages evals)
  have lis: "find_all (Tag (py ''ul'') [py ''symbol-grid''] Map.empty [li_gteq, li_arrow, li_gteq]) (py ''li'') None =
     [li_gteq, li_arrow, li_gteq]"
    by (simp add: pages evals)
  have ok: "shorthand_ok li_gteq" "shorthand_ok li_arrow" and bad: "\<not> shorthand_ok li_plain"
    by (simp_all add: pages evals)
  have lines: "shorthand_of ascii_unescape li_gteq = py ''['gt.eq', '>='],''"
    "shorthand_of ascii_unescape li_arrow = py ''['arrow.r', '->'],''"
    by (simp_all add: pages evals)
  have broken: "index (find_all broken_page (py ''ul'') (Some (py ''symbol-grid''))) 1 =
     Inr (Tag (py ''ul'') [py ''symbol-grid''] Map.empty [li_arrow, li_plain, li_gteq])"
    "find_all (Tag (py ''ul'') [py ''symbol-grid''] Map.empty [li_arrow, li_plain, li_gteq]) (py ''li'') None =
     [li_arrow, li_plain, li_gteq]"
    by (simp_all add: pages evals)
  have one: "index (find_all one_grid_page (py ''ul'') (Some (py ''symbol-grid''))) 1 = Inl IndexError"
    by (simp add: pages evals)
  from shorthand_document_order [where U = ascii_unescape and soup = repeat_page
      and ul = "Tag (py ''ul'') [py ''symbol-grid''] Map.empty [li_gteq, li_arrow, li_gteq]"]
    uls lis ok lines
  have r1: "shorthand_main ascii_unescape repeat_page =
     \<lparr>stdout = [py ''['gt.eq', '>='],'', py ''['arrow.r', '->'],'', py ''['gt.eq', '>='],''],
      raised = None\<rparr>"
    by simp
  from shorthand_document_order [where U = ascii_unescape and soup = broken_page] broken ok bad lines
  have r2: "stdout (shorthand_main ascii_unescape broken_page) = [py ''['arrow.r', '->'],'']"
    by simp
  from shorthand_document_order [where U = ascii_unescape and soup = one_grid_page] one
  have r3: "stdout (shorthand_main ascii_unescape one_grid_page) = []"
    by simp
  from uls lis ok r1 r2 r3 show ?thesis by blast
qed

text \<open>
  C7. With fewer than two symbol-grid lists the shorthand extractor raises \<^verbatim>\<open>IndexError\<close>
  and prints nothing. When an item of the second list lacks \<^verbatim>\<open>id\<close> or
  \<^verbatim>\<open>data-math-shorthand\<close> and all items before it carry both, the run raises \<^verbatim>\<open>KeyError\<close>
  and its output is exactly the lines of the items before it.
\<close>

theorem shorthand_failures:
  "(length (find_all soup (py ''ul'') (Some (py ''symbol-grid''))) < 2 \<longrightarrow>
      shorthand_main U soup = \<lparr>stdout = [], raised = Some IndexError\<rparr>) \<and>
   (index (find_all soup (py ''ul'') (Some (py ''symbol-grid''))) 1 = Inr ul \<and>
    find_all ul (py ''li'') None = pre @ li # post \<and>
    (\<forall>x \<in> set pre. shorthand_ok x) \<and> \<not> shorthand_ok li \<longrightarrow>
      shorthand_main U soup = \<lparr>stdout = map (shorthand_of U) pre, raised = Some KeyError\<rparr>)"
proof (intro conjI impI)
  assume "length (find_all soup (py ''ul'') (Some (py ''symbol-grid''))) < 2"
  then show "shorthand_main U soup = \<lparr>stdout = [], raised = Some IndexError\<rparr>"
    by (simp add: shorthand_main_def index_def)
next
  assume a: "index (find_all soup (py ''ul'') (Some (py ''symbol-grid''))) 1 = Inr ul \<and>
    find_all ul (py ''li'') None = pre @ li # post \<and>
    (\<forall>x \<in> set pre. shorthand_ok x) \<and> \<not> shorthand_ok li"
  then have pre: "\<forall>x \<in> set pre. shorthand_ok x" and bad: "\<not> shorthand_ok li"
    by blast+
  from a show "shorthand_main U soup = \<lparr>stdout = map (shorthand_of U) pre, raised = Some KeyError\<rparr>"
    unfolding shorthand_main_def
    by (simp add: shorthand_loop_prefix [OF pre] shorthand_loop_stop [OF bad]
        del: shorthand_loop.simps)
qed

text \<open>
  On \<open>one_grid_page\<close>, and on \<open>broken_page\<close>, whose second item has no
  \<^verbatim>\<open>data-math-shorthand\<close>: the line of the first item is printed, that of the third is not.
\<close>

theorem shorthand_failures_witness:
  "length (find_all one_grid_page (py ''ul'') (Some (py ''symbol-grid''))) < 2 \<and>
   shorthand_main ascii_unescape one_grid_page = \<lparr>stdout = [], raised = Some IndexError\<rparr> \<and>
   index (find_all broken_page (py ''ul'') (Some (py ''symbol-grid''))) 1 =
     Inr (Tag (py ''ul'') [py ''symbol-grid''] Map.empty [li_arrow, li_plain, li_gteq]) \<and>
   find_all (Tag (py ''ul'') [py ''symbol-grid''] Map.empty [li_arrow, li_plain, li_gteq]) (py ''li'') None =
     [li_arrow] @ li_plain # [li_gteq] \<and>
   shorthand_ok li_arrow \<and> \<not> shorthand_ok li_plain \<and>
   shorthand_main ascii_unescape broken_page =
     \<lparr>stdout = [py ''['arrow.r', '->'],''], raised = Some KeyError\<rparr>"
proof -
  have one: "length (find_all one_grid_page (py ''ul'') (Some (py ''symbol-grid''))) < 2"
    by (simp add: pages evals)
  have uls: "index (find_all broken_page (py ''ul'') (Some (py ''symbol-grid''))) 1 =
     Inr (Tag (py ''ul'') [py ''symbol-grid''] Map.empty [li_arrow, li_plain, li_gteq])"
    by (simp add: pages evals)
  have lis: "find_all (Tag (py ''ul'') [py ''symbol-grid''] Map.empty [li_arrow, li_plain, li_gteq]) (py ''li'') None =
     [li_arrow] @ li_plain # [li_gteq]"
    by (simp add: pages evals)
  have ok: "shorthand_ok li_arrow" and bad: "\<not> shorthand_ok li_plain"
    by (simp_all add: pages evals)
  have line: "shorthand_of ascii_unescape li_arrow = py ''['arrow.r', '->'],''"
    by (simp add: pages evals)
  from shorthand_failures [of one_grid_page ascii_unescape] one
  have r1: "shorthand_main ascii_unescape one_grid_page = \<lparr>stdout = [], raised = Some IndexError\<rparr>"
    by blast
  from shorthand_failures [of broken_page ascii_unescape _ "[li_arrow]" li_plain "[li_gteq]"]
    uls lis ok bad line
  have r2: "shorthand_main ascii_unescape broken_page =
     \<lparr>stdout = [py ''['arrow.r', '->'],''], raised = Some KeyError\<rparr>"
    by simp
  from one r1 uls lis ok bad r2 show ?thesis by blast
qed

section \<open>The symbol extractor\<close>

text \<open>
  What one pass of the body returns, and what the loop has built when it returns: a
  dictionary with distinct keys that maps each LaTeX name to the identifier of the first
  item carrying it.
\<close>

lemma setitem_fresh: "k \<notin> fst ` set d \<Longrightarrow> setitem d k v = d @ [(k, v)]"
  by (induction d) auto

lemma symbol_item_Inr:
  "symbol_item P li m = Inr m' \<longleftrightarrow>
     symbol_ok P li \<and>
     m' = (case latex_of li of
             None \<Rightarrow> m
           | Some l \<Rightarrow> if l \<in> fst ` set m then m else m @ [(l, typst_of li)])"
  by (auto simp: symbol_item_def getitem_def contains_def setitem_fresh
      split: option.splits)

lemma symbol_item_Inl:
  "symbol_item P li m = Inl e \<longleftrightarrow>
     \<not> symbol_ok P li \<and>
     e = (if tag_attrs li (py ''id'') = None \<or> tag_attrs li (py ''data-codepoint'') = None
          then KeyError else ValueError)"
  by (auto simp: symbol_item_def getitem_def split: option.splits)

lemma symbol_loop_ok: "symbol_loop P lis m = Inr m' \<Longrightarrow> \<forall>li \<in> set lis. symbol_ok P li"
proof (induction lis arbitrary: m)
  case Nil
  then show ?case by simp
next
  case (Cons li lis)
  from Cons.prems obtain m1 where 1: "symbol_item P li m = Inr m1"
    and 2: "symbol_loop P lis m1 = Inr m'"
    by (auto split: sum.splits)
  from 1 have "symbol_ok P li" unfolding symbol_item_Inr by blast
  with Cons.IH [OF 2] show ?case by simp
qed

lemma symbol_loop_map_of:
  "symbol_loop P lis m = Inr m' \<Longrightarrow>
   map_of m' k =
     (case map_of m k of
        Some v \<Rightarrow> Some v
      | None \<Rightarrow> map_option typst_of (List.find (\<lambda>li. latex_of li = Some k) lis))"
proof (induction lis arbitrary: m)
  case Nil
  then show ?case by (simp split: option.splits)
next
  case (Cons li lis)
  from Cons.prems obtain m1 where 1: "symbol_item P li m = Inr m1"
    and 2: "symbol_loop P lis m1 = Inr m'"
    by (auto split: sum.splits)
  from 1 have m1: "m1 = (case latex_of li of
             None \<Rightarrow> m
           | Some l \<Rightarrow> if l \<in> fst ` set m then m else m @ [(l, typst_of li)])"
    unfolding symbol_item_Inr by blast
  have "map_of m1 k =
     (case map_of m k of
        Some v \<Rightarrow> Some v
      | None \<Rightarrow> if latex_of li = Some k then Some (typst_of li) else None)"
    unfolding m1
    by (auto simp: map_add_def map_of_eq_None_iff split: option.splits
        dest: map_of_SomeD intro: rev_image_eqI)
  with Cons.IH [OF 2, of ] show ?case
    by (auto split: option.splits)
qed


lemma pairs_of_keys:
  "set ks \<subseteq> fst ` set m \<Longrightarrow> pairs_of m ks = Inr (map (\<lambda>k. (k, the (map_of m k))) ks)"
proof (induction ks)
  case Nil
  then show ?case by simp
next
  case (Cons k ks)
  then have "k \<in> fst ` set m" by simp
  then obtain v where "map_of m k = Some v"
    by (metis map_of_eq_None_iff not_None_eq)
  with Cons show ?case by (simp add: dict_getitem_def)
qed

lemma sorted_symbol_map_Inr:
  "sorted_symbol_map L P lis = Inr ps \<longleftrightarrow>
     (\<exists>m. symbol_loop P lis [] = Inr m \<and>
          ps = map (\<lambda>k. (k, the (map_of m k))) (sort_key L (map fst m)))"
  by (auto simp: sorted_symbol_map_def pairs_of_keys split: sum.splits)

lemma sorted_symbol_map_Inl:
  "sorted_symbol_map L P lis = Inl e \<longleftrightarrow> symbol_loop P lis [] = Inl e"
  by (auto simp: sorted_symbol_map_def pairs_of_keys split: sum.splits)


lemma symbol_main_Some:
  "find_tag soup (py ''ul'') (Some (py ''symbol-grid'')) = Some ul \<Longrightarrow>
   symbol_main L P soup = symbol_run L P (find_all ul (py ''li'') None)"
  by (simp add: symbol_main_def)

lemma symbol_run_Inr:
  "sorted_symbol_map L P lis = Inr entries \<Longrightarrow>
   symbol_run L P lis =
     \<lparr>stdout = map (\<lambda>(latex, typst). symbol_line latex typst) entries, raised = None\<rparr>"
  by (simp add: symbol_run_def)

lemma symbol_main_raised:
  "raised (symbol_main L P soup) \<noteq> None \<Longrightarrow> stdout (symbol_main L P soup) = []"
  by (auto simp: symbol_main_def symbol_run_def split: option.splits sum.splits)

lemma symbol_run_raised:
  "raised (symbol_run L P lis) = None \<longleftrightarrow> (\<exists>m. symbol_loop P lis [] = Inr m)"
  by (cases "symbol_loop P lis []")
     (simp_all add: symbol_run_def sorted_symbol_map_def pairs_of_keys)

lemma symbol_run_loop:
  "symbol_loop P lis [] = symbol_loop P' lis' [] \<Longrightarrow> symbol_run L P lis = symbol_run L P' lis'"
  by (simp add: symbol_run_def sorted_symbol_map_def)

lemma symbol_loop_skip:
  "\<forall>li \<in> set lis. latex_of li = None \<longrightarrow> symbol_ok P li \<Longrightarrow>
   symbol_loop P (filter (\<lambda>li. latex_of li \<noteq> None) lis) m = symbol_loop P lis m"
proof (induction lis arbitrary: m)
  case Nil
  then show ?case by simp
next
  case (Cons li lis)
  then have IH: "\<And>m. symbol_loop P (filter (\<lambda>li. latex_of li \<noteq> None) lis) m = symbol_loop P lis m"
    by simp
  show ?case
  proof (cases "latex_of li")
    case None
    with Cons.prems have "symbol_ok P li" by simp
    with None have "symbol_item P li m = Inr m"
      unfolding symbol_item_Inr by simp
    with None IH show ?thesis by simp
  next
    case (Some l)
    with IH show ?thesis by (simp split: sum.splits)
  qed
qed

lemma symbol_loop_attrs:
  "symbol_loop P lis m = Inr m1 \<Longrightarrow> symbol_loop P' lis' m = Inr m2 \<Longrightarrow>
   map (\<lambda>li. (latex_of li, tag_attrs li (py ''id''))) lis =
   map (\<lambda>li. (latex_of li, tag_attrs li (py ''id''))) lis' \<Longrightarrow>
   m1 = m2"
proof (induction lis arbitrary: lis' m)
  case Nil
  then show ?case by simp
next
  case (Cons li lis)
  from Cons.prems(3) obtain li' rest where lis': "lis' = li' # rest"
    and same: "latex_of li = latex_of li'" "tag_attrs li (py ''id'') = tag_attrs li' (py ''id'')"
    and more: "map (\<lambda>li. (latex_of li, tag_attrs li (py ''id''))) lis =
               map (\<lambda>li. (latex_of li, tag_attrs li (py ''id''))) rest"
    by (cases lis') auto
  from Cons.prems(1) obtain a where 1: "symbol_item P li m = Inr a"
    and 2: "symbol_loop P lis a = Inr m1"
    by (auto split: sum.splits)
  from Cons.prems(2) lis' obtain a' where 3: "symbol_item P' li' m = Inr a'"
    and 4: "symbol_loop P' rest a' = Inr m2"
    by (auto split: sum.splits)
  from 1 3 have "a = a'"
    unfolding symbol_item_Inr same by simp
  with Cons.IH [OF 2 _ more] 4 show ?case by simp
qed

lemma symbol_loop_prefix:
  "\<forall>x \<in> set pre. symbol_ok P x \<Longrightarrow> \<exists>m'. symbol_loop P (pre @ rest) m = symbol_loop P rest m'"
proof (induction pre arbitrary: m)
  case Nil
  then show ?case by auto
next
  case (Cons x pre)
  then have "symbol_ok P x" by simp
  then obtain m1 where "symbol_item P x m = Inr m1"
    unfolding symbol_item_Inr by blast
  with Cons.IH [of m1] Cons.prems show ?case by simp
qed

lemma symbol_run_stop:
  assumes "\<forall>x \<in> set pre. symbol_ok P x" and "\<And>m. symbol_item P li m = Inl e"
  shows "symbol_run L P (pre @ li # post) = \<lparr>stdout = [], raised = Some e\<rparr>"
proof -
  from symbol_loop_prefix [OF assms(1)] obtain m'
    where "symbol_loop P (pre @ li # post) [] = symbol_loop P (li # post) m'"
    by blast
  with assms(2) have "symbol_loop P (pre @ li # post) [] = Inl e"
    by simp
  then show ?thesis
    by (simp add: symbol_run_def sorted_symbol_map_def)
qed

lemma symbol_entry_origin:
  assumes "sorted_symbol_map L P lis = Inr entries" and "(k, v) \<in> set entries"
  shows "\<exists>first i. List.find (\<lambda>x. latex_of x = Some k) lis = Some first \<and>
                   tag_attrs first (py ''id'') = Some i \<and> v = drop 7 i"
proof -
  from assms(1) obtain m where loop: "symbol_loop P lis [] = Inr m"
    and entries: "entries = map (\<lambda>k. (k, the (map_of m k))) (sort_key L (map fst m))"
    unfolding sorted_symbol_map_Inr by blast
  from assms(2) have k: "k \<in> fst ` set m" and v: "v = the (map_of m k)"
    unfolding entries by auto
  from k have "map_of m k \<noteq> None"
    by (simp add: map_of_eq_None_iff)
  with symbol_loop_map_of [OF loop, of k] obtain first
    where first: "List.find (\<lambda>x. latex_of x = Some k) lis = Some first"
      and mk: "map_of m k = Some (typst_of first)"
    by (cases "List.find (\<lambda>x. latex_of x = Some k) lis") auto
  from first have "first \<in> set lis"
    by (auto simp: find_Some_iff)
  with symbol_loop_ok [OF loop] obtain i where "tag_attrs first (py ''id'') = Some i"
    by blast
  with first mk v show ?thesis by simp
qed

text \<open>The grids and items of two example pages.\<close>

lemma equiv_grid:
  "find_tag equiv_page (py ''ul'') (Some (py ''symbol-grid'')) =
     Some (grid [symbol_li ''symbol-equal'' ''equiv'' ''61'',
                 symbol_li ''symbol-equiv.triple'' ''equiv'' ''8803''])"
  by (simp add: symbol_pages symbol_evals)


lemma greek_grid:
  "find_tag greek_page (py ''ul'') (Some (py ''symbol-grid'')) =
     Some (grid [symbol_li ''symbol-pi'' ''pi'' ''960'', symbol_li ''symbol-Delta'' ''Delta'' ''916'',
                 unnamed_li ''symbol-dash.en'' ''8211'', symbol_li ''symbol-alpha'' ''alpha'' ''945''])"
  by (simp add: symbol_pages symbol_evals)

lemma greek_items:
  "find_all (grid [symbol_li ''symbol-pi'' ''pi'' ''960'', symbol_li ''symbol-Delta'' ''Delta'' ''916'',
                   unnamed_li ''symbol-dash.en'' ''8211'', symbol_li ''symbol-alpha'' ''alpha'' ''945''])
            (py ''li'') None =
     [symbol_li ''symbol-pi'' ''pi'' ''960'', symbol_li ''symbol-Delta'' ''Delta'' ''916'',
      unnamed_li ''symbol-dash.en'' ''8211'', symbol_li ''symbol-alpha'' ''alpha'' ''945'']"
  by (simp add: symbol_pages symbol_evals)

text \<open>
  The example of C1 on the code. With the two attributes the claim names and no
  \<^verbatim>\<open>data-codepoint\<close>, line 22 raises \<^verbatim>\<open>KeyError\<close> and nothing is printed. With a code point on
  each item the run prints one line, and the line starts with the four spaces of the
  f-string of line 34, which the claimed line does not have.
\<close>

theorem symbol_example_counterexample:
  "symbol_main ascii_lower ascii_int bare_equiv_page = \<lparr>stdout = [], raised = Some KeyError\<rparr> \<and>
   symbol_main ascii_lower ascii_int equiv_page =
     \<lparr>stdout = [py ''    ['equiv', 'equal'],''], raised = None\<rparr> \<and>
   py ''    ['equiv', 'equal'],'' \<noteq> py ''['equiv', 'equal'],''"
  by (simp add: symbol_pages symbol_evals)

text \<open>
  C1, amended. Every line the symbol extractor prints is four spaces followed by
  \<^verbatim>\<open>['<latex>', '<typst>'],\<close>, where \<^verbatim>\<open><latex>\<close> is the \<^verbatim>\<open>data-latex-name\<close> of an item of
  the first symbol-grid list without its first code point and \<^verbatim>\<open><typst>\<close> is the \<^verbatim>\<open>id\<close> of
  that item without its first seven code points. For the two items of the example, each
  also carrying a \<^verbatim>\<open>data-codepoint\<close> that \<^verbatim>\<open>int\<close> accepts, the output is exactly the one line
  \<^verbatim>\<open>    ['equiv', 'equal'],\<close>.
\<close>

theorem symbol_line_format:
  "(\<forall>line \<in> set (stdout (symbol_main L P soup)).
      \<exists>ul li latex i.
        find_tag soup (py ''ul'') (Some (py ''symbol-grid'')) = Some ul \<and>
        li \<in> set (find_all ul (py ''li'') None) \<and>
        tag_attrs li (py ''data-latex-name'') = Some latex \<and>
        tag_attrs li (py ''id'') = Some i \<and>
        line = py ''    ['' @ [39] @ drop 1 latex @ [39] @ py '', '' @ [39] @ drop 7 i @ [39] @ py ''],'') \<and>
   (P (py ''61'') \<noteq> None \<and> P (py ''8803'') \<noteq> None \<longrightarrow>
      symbol_main L P equiv_page = \<lparr>stdout = [py ''    ['equiv', 'equal'],''], raised = None\<rparr>)"
proof (intro conjI ballI impI)
  fix line
  assume line: "line \<in> set (stdout (symbol_main L P soup))"
  then obtain ul where ul: "find_tag soup (py ''ul'') (Some (py ''symbol-grid'')) = Some ul"
    by (cases "find_tag soup (py ''ul'') (Some (py ''symbol-grid''))")
       (auto simp: symbol_main_def)
  with line have run: "line \<in> set (stdout (symbol_run L P (find_all ul (py ''li'') None)))"
    by (simp add: symbol_main_Some)
  then obtain entries where entries: "sorted_symbol_map L P (find_all ul (py ''li'') None) = Inr entries"
    by (cases "sorted_symbol_map L P (find_all ul (py ''li'') None)")
       (auto simp: symbol_run_def)
  with run obtain k v where kv: "(k, v) \<in> set entries" and l: "line = symbol_line k v"
    by (auto simp: symbol_run_Inr)
  from symbol_entry_origin [OF entries kv] obtain first i
    where first: "List.find (\<lambda>x. latex_of x = Some k) (find_all ul (py ''li'') None) = Some first"
      and i: "tag_attrs first (py ''id'') = Some i" and v: "v = drop 7 i"
    by blast
  from first have "first \<in> set (find_all ul (py ''li'') None)" and "latex_of first = Some k"
    by (auto simp: find_Some_iff)
  with ul i l v
  show "\<exists>ul li latex i.
        find_tag soup (py ''ul'') (Some (py ''symbol-grid'')) = Some ul \<and>
        li \<in> set (find_all ul (py ''li'') None) \<and>
        tag_attrs li (py ''data-latex-name'') = Some latex \<and>
        tag_attrs li (py ''id'') = Some i \<and>
        line = py ''    ['' @ [39] @ drop 1 latex @ [39] @ py '', '' @ [39] @ drop 7 i @ [39] @ py ''],''"
    unfolding symbol_line_def by blast
next
  assume "P (py ''61'') \<noteq> None \<and> P (py ''8803'') \<noteq> None"
  then obtain a b where "P (py ''61'') = Some a" and "P (py ''8803'') = Some b"
    by blast
  then show "symbol_main L P equiv_page = \<lparr>stdout = [py ''    ['equiv', 'equal'],''], raised = None\<rparr>"
    by (simp add: symbol_pages find_tag_def find_all_def py_def symbol_main_def symbol_run_def
        sorted_symbol_map_def symbol_item_def getitem_def contains_def dict_getitem_def
        symbol_line_def)
qed

text \<open>On \<open>equiv_page\<close>: the printed line and the item it comes from.\<close>

theorem symbol_line_format_witness:
  "ascii_int (py ''61'') \<noteq> None \<and> ascii_int (py ''8803'') \<noteq> None \<and>
   symbol_main ascii_lower ascii_int equiv_page =
     \<lparr>stdout = [py ''    ['equiv', 'equal'],''], raised = None\<rparr> \<and>
   (\<exists>ul li latex i.
      find_tag equiv_page (py ''ul'') (Some (py ''symbol-grid'')) = Some ul \<and>
      li \<in> set (find_all ul (py ''li'') None) \<and>
      tag_attrs li (py ''data-latex-name'') = Some latex \<and>
      tag_attrs li (py ''id'') = Some i \<and>
      py ''    ['equiv', 'equal'],'' =
        py ''    ['' @ [39] @ drop 1 latex @ [39] @ py '', '' @ [39] @ drop 7 i @ [39] @ py ''],'')"
proof -
  have ints: "ascii_int (py ''61'') \<noteq> None" "ascii_int (py ''8803'') \<noteq> None"
    by (simp_all add: ascii_int_def py_def)
  note fmt = symbol_line_format [of ascii_lower ascii_int equiv_page]
  from fmt ints have out: "symbol_main ascii_lower ascii_int equiv_page =
     \<lparr>stdout = [py ''    ['equiv', 'equal'],''], raised = None\<rparr>"
    by blast
  then have "py ''    ['equiv', 'equal'],'' \<in> set (stdout (symbol_main ascii_lower ascii_int equiv_page))"
    by simp
  with fmt have "\<exists>ul li latex i.
      find_tag equiv_page (py ''ul'') (Some (py ''symbol-grid'')) = Some ul \<and>
      li \<in> set (find_all ul (py ''li'') None) \<and>
      tag_attrs li (py ''data-latex-name'') = Some latex \<and>
      tag_attrs li (py ''id'') = Some i \<and>
      py ''    ['equiv', 'equal'],'' =
        py ''    ['' @ [39] @ drop 1 latex @ [39] @ py '', '' @ [39] @ drop 7 i @ [39] @ py ''],''"
    by blast
  with ints out show ?thesis by blast
qed




text \<open>
  C3. On a run of the symbol extractor that completes, the printed lines are those of the
  pairs \<open>entries\<close>, in order, and for any two positions \<open>i < j\<close> the LaTeX name at \<open>i\<close> is,
  lower-cased, at most the lower-cased LaTeX name at \<open>j\<close>. A run that raises prints no
  line.
\<close>

theorem symbol_sorted:
  "(find_tag soup (py ''ul'') (Some (py ''symbol-grid'')) = Some ul \<and>
    sorted_symbol_map L P (find_all ul (py ''li'') None) = Inr entries \<longrightarrow>
      symbol_main L P soup =
        \<lparr>stdout = map (\<lambda>(latex, typst). symbol_line latex typst) entries, raised = None\<rparr> \<and>
      (\<forall>i j. i < j \<and> j < length entries \<longrightarrow> L (fst (entries ! i)) \<le> L (fst (entries ! j)))) \<and>
   (raised (symbol_main L P soup) \<noteq> None \<longrightarrow> stdout (symbol_main L P soup) = [])"
proof (intro conjI impI)
  assume a: "find_tag soup (py ''ul'') (Some (py ''symbol-grid'')) = Some ul \<and>
    sorted_symbol_map L P (find_all ul (py ''li'') None) = Inr entries"
  then show "symbol_main L P soup =
        \<lparr>stdout = map (\<lambda>(latex, typst). symbol_line latex typst) entries, raised = None\<rparr>"
    by (simp add: symbol_main_Some symbol_run_Inr)
  from a obtain m where
    entries: "entries = map (\<lambda>k. (k, the (map_of m k))) (sort_key L (map fst m))"
    unfolding sorted_symbol_map_Inr by blast
  have "map L (map fst entries) = map L (sort_key L (map fst m))"
    unfolding entries by (simp add: o_def)
  then have "sorted (map L (map fst entries))"
    by simp
  then show "\<forall>i j. i < j \<and> j < length entries \<longrightarrow> L (fst (entries ! i)) \<le> L (fst (entries ! j))"
    by (simp add: sorted_iff_nth_mono_less)
next
  assume "raised (symbol_main L P soup) \<noteq> None"
  then show "stdout (symbol_main L P soup) = []"
    by (rule symbol_main_raised)
qed

text \<open>
  On \<open>greek_page\<close>, which lists \<^verbatim>\<open>\pi\<close>, \<^verbatim>\<open>\Delta\<close> and \<^verbatim>\<open>\alpha\<close>: \<^verbatim>\<open>\alpha\<close> is printed before
  \<^verbatim>\<open>\Delta\<close>, though \<^verbatim>\<open>\Delta\<close> is the smaller string before lower-casing. On \<open>badcode_page\<close>
  the run raises.
\<close>

theorem symbol_sorted_witness:
  "find_tag greek_page (py ''ul'') (Some (py ''symbol-grid'')) =
     Some (grid [symbol_li ''symbol-pi'' ''pi'' ''960'', symbol_li ''symbol-Delta'' ''Delta'' ''916'',
                 unnamed_li ''symbol-dash.en'' ''8211'', symbol_li ''symbol-alpha'' ''alpha'' ''945'']) \<and>
   sorted_symbol_map ascii_lower ascii_int
     (find_all (grid [symbol_li ''symbol-pi'' ''pi'' ''960'', symbol_li ''symbol-Delta'' ''Delta'' ''916'',
                 unnamed_li ''symbol-dash.en'' ''8211'', symbol_li ''symbol-alpha'' ''alpha'' ''945''])
        (py ''li'') None) =
     Inr [(92 # py ''alpha'', py ''alpha''), (92 # py ''Delta'', py ''Delta''), (92 # py ''pi'', py ''pi'')] \<and>
   symbol_main ascii_lower ascii_int greek_page =
     \<lparr>stdout = [py ''    ['alpha', 'alpha'],'', py ''    ['Delta', 'Delta'],'', py ''    ['pi', 'pi'],''],
      raised = None\<rparr> \<and>
   ascii_lower (92 # py ''alpha'') \<le> ascii_lower (92 # py ''Delta'') \<and>
   ascii_lower (92 # py ''Delta'') \<le> ascii_lower (92 # py ''pi'') \<and>
   92 # py ''Delta'' < 92 # py ''alpha'' \<and>
   raised (symbol_main ascii_lower ascii_int badcode_page) \<noteq> None \<and>
   stdout (symbol_main ascii_lower ascii_int badcode_page) = []"
proof -
  have entries: "sorted_symbol_map ascii_lower ascii_int
     (find_all (grid [symbol_li ''symbol-pi'' ''pi'' ''960'', symbol_li ''symbol-Delta'' ''Delta'' ''916'',
                 unnamed_li ''symbol-dash.en'' ''8211'', symbol_li ''symbol-alpha'' ''alpha'' ''945''])
        (py ''li'') None) =
     Inr [(92 # py ''alpha'', py ''alpha''), (92 # py ''Delta'', py ''Delta''), (92 # py ''pi'', py ''pi'')]"
    by (simp add: symbol_pages symbol_evals)
  have lines: "symbol_line (92 # py ''alpha'') (py ''alpha'') = py ''    ['alpha', 'alpha'],''"
    "symbol_line (92 # py ''Delta'') (py ''Delta'') = py ''    ['Delta', 'Delta'],''"
    "symbol_line (92 # py ''pi'') (py ''pi'') = py ''    ['pi', 'pi'],''"
    by (simp_all add: symbol_evals)
  have raw: "92 # py ''Delta'' < 92 # py ''alpha''"
    by (simp add: py_def)
  have bad: "raised (symbol_main ascii_lower ascii_int badcode_page) \<noteq> None"
    by (simp add: symbol_pages symbol_evals)
  note inst = symbol_sorted [where L = ascii_lower and P = ascii_int and soup = greek_page
      and ul = "grid [symbol_li ''symbol-pi'' ''pi'' ''960'', symbol_li ''symbol-Delta'' ''Delta'' ''916'',
                 unnamed_li ''symbol-dash.en'' ''8211'', symbol_li ''symbol-alpha'' ''alpha'' ''945'']"
      and entries = "[(92 # py ''alpha'', py ''alpha''), (92 # py ''Delta'', py ''Delta''),
                      (92 # py ''pi'', py ''pi'')]"]
  from inst greek_grid entries lines have out: "symbol_main ascii_lower ascii_int greek_page =
     \<lparr>stdout = [py ''    ['alpha', 'alpha'],'', py ''    ['Delta', 'Delta'],'', py ''    ['pi', 'pi'],''],
      raised = None\<rparr>"
    by simp
  from inst greek_grid entries have "\<forall>i j. i < j \<and> j < 3 \<longrightarrow>
      ascii_lower (fst ([(92 # py ''alpha'', py ''alpha''), (92 # py ''Delta'', py ''Delta''),
                         (92 # py ''pi'', py ''pi'')] ! i))
      \<le> ascii_lower (fst ([(92 # py ''alpha'', py ''alpha''), (92 # py ''Delta'', py ''Delta''),
                         (92 # py ''pi'', py ''pi'')] ! j))"
    by simp
  from this [rule_format, of 0 1] this [rule_format, of 1 2]
  have le: "ascii_lower (92 # py ''alpha'') \<le> ascii_lower (92 # py ''Delta'')"
    "ascii_lower (92 # py ''Delta'') \<le> ascii_lower (92 # py ''pi'')"
    by simp_all
  from symbol_sorted [where L = ascii_lower and P = ascii_int and soup = badcode_page] bad
  have none: "stdout (symbol_main ascii_lower ascii_int badcode_page) = []"
    by blast
  from greek_grid entries out le raw bad none show ?thesis by blast
qed

text \<open>
  C4 on the code. The second item of \<open>missing_page\<close> has no \<^verbatim>\<open>data-latex-name\<close> and no
  \<^verbatim>\<open>data-codepoint\<close>. It is not skipped: line 22 raises \<^verbatim>\<open>KeyError\<close> on it and the run prints
  nothing, where the run over the two other items prints two lines.
\<close>

theorem symbol_without_latex_counterexample:
  "find_tag missing_page (py ''ul'') (Some (py ''symbol-grid'')) =
     Some (grid [symbol_li ''symbol-pi'' ''pi'' ''960'', li_plain,
                 symbol_li ''symbol-alpha'' ''alpha'' ''945'']) \<and>
   find_all (grid [symbol_li ''symbol-pi'' ''pi'' ''960'', li_plain,
                   symbol_li ''symbol-alpha'' ''alpha'' ''945'']) (py ''li'') None =
     [symbol_li ''symbol-pi'' ''pi'' ''960'', li_plain, symbol_li ''symbol-alpha'' ''alpha'' ''945''] \<and>
   tag_attrs li_plain (py ''data-latex-name'') = None \<and>
   symbol_main ascii_lower ascii_int missing_page = \<lparr>stdout = [], raised = Some KeyError\<rparr> \<and>
   symbol_run ascii_lower ascii_int
     [symbol_li ''symbol-pi'' ''pi'' ''960'', symbol_li ''symbol-alpha'' ''alpha'' ''945''] =
     \<lparr>stdout = [py ''    ['alpha', 'alpha'],'', py ''    ['pi', 'pi'],''], raised = None\<rparr>"
  by (simp add: symbol_pages symbol_evals)

text \<open>
  C4, amended. An item without \<^verbatim>\<open>data-latex-name\<close> that carries an \<^verbatim>\<open>id\<close> and a
  \<^verbatim>\<open>data-codepoint\<close> that \<^verbatim>\<open>int\<close> accepts is skipped: the pass of the loop body over it
  returns the dictionary unchanged, and no pass over an item without \<^verbatim>\<open>data-latex-name\<close>
  returns anything else. When every such item of the list carries both, the run on the
  page is the run over the items that carry \<^verbatim>\<open>data-latex-name\<close> alone: the same lines and
  the same exception, if any.
\<close>

theorem symbol_without_latex:
  "(tag_attrs li (py ''data-latex-name'') = None \<and> symbol_ok P li \<longrightarrow>
      symbol_item P li symbol_map = Inr symbol_map) \<and>
   (tag_attrs li (py ''data-latex-name'') = None \<and>
    symbol_item P li symbol_map = Inr symbol_map' \<longrightarrow> symbol_map' = symbol_map) \<and>
   (find_tag soup (py ''ul'') (Some (py ''symbol-grid'')) = Some ul \<and>
    (\<forall>x \<in> set (find_all ul (py ''li'') None).
       tag_attrs x (py ''data-latex-name'') = None \<longrightarrow> symbol_ok P x) \<longrightarrow>
      symbol_main L P soup =
        symbol_run L P (filter (\<lambda>li. tag_attrs li (py ''data-latex-name'') \<noteq> None)
                          (find_all ul (py ''li'') None)))"
proof (intro conjI impI)
  assume "latex_of li = None \<and> symbol_ok P li"
  then show "symbol_item P li symbol_map = Inr symbol_map"
    unfolding symbol_item_Inr by simp
next
  assume "latex_of li = None \<and> symbol_item P li symbol_map = Inr symbol_map'"
  then show "symbol_map' = symbol_map"
    unfolding symbol_item_Inr by simp
next
  assume a: "find_tag soup (py ''ul'') (Some (py ''symbol-grid'')) = Some ul \<and>
    (\<forall>x \<in> set (find_all ul (py ''li'') None). latex_of x = None \<longrightarrow> symbol_ok P x)"
  then have ok: "\<forall>x \<in> set (find_all ul (py ''li'') None). latex_of x = None \<longrightarrow> symbol_ok P x"
    by blast
  from symbol_loop_skip [OF ok, of "[]"]
  have "symbol_loop P (find_all ul (py ''li'') None) [] =
        symbol_loop P (filter (\<lambda>li. latex_of li \<noteq> None) (find_all ul (py ''li'') None)) []"
    by simp
  from symbol_run_loop [OF this] a
  show "symbol_main L P soup =
        symbol_run L P (filter (\<lambda>li. latex_of li \<noteq> None) (find_all ul (py ''li'') None))"
    by (simp add: symbol_main_Some)
qed

text \<open>
  On \<open>greek_page\<close>, whose third item has no \<^verbatim>\<open>data-latex-name\<close> and carries \<^verbatim>\<open>id\<close> and a
  valid code point.
\<close>

theorem symbol_without_latex_witness:
  "tag_attrs (unnamed_li ''symbol-dash.en'' ''8211'') (py ''data-latex-name'') = None \<and>
   symbol_ok ascii_int (unnamed_li ''symbol-dash.en'' ''8211'') \<and>
   symbol_item ascii_int (unnamed_li ''symbol-dash.en'' ''8211'') [(92 # py ''pi'', py ''pi'')] =
     Inr [(92 # py ''pi'', py ''pi'')] \<and>
   find_tag greek_page (py ''ul'') (Some (py ''symbol-grid'')) =
     Some (grid [symbol_li ''symbol-pi'' ''pi'' ''960'', symbol_li ''symbol-Delta'' ''Delta'' ''916'',
                 unnamed_li ''symbol-dash.en'' ''8211'', symbol_li ''symbol-alpha'' ''alpha'' ''945'']) \<and>
   symbol_main ascii_lower ascii_int greek_page =
     symbol_run ascii_lower ascii_int
       [symbol_li ''symbol-pi'' ''pi'' ''960'', symbol_li ''symbol-Delta'' ''Delta'' ''916'',
        symbol_li ''symbol-alpha'' ''alpha'' ''945''] \<and>
   symbol_main ascii_lower ascii_int greek_page =
     \<lparr>stdout = [py ''    ['alpha', 'alpha'],'', py ''    ['Delta', 'Delta'],'', py ''    ['pi', 'pi'],''],
      raised = None\<rparr>"
proof -
  have none: "tag_attrs (unnamed_li ''symbol-dash.en'' ''8211'') (py ''data-latex-name'') = None"
    and ok: "symbol_ok ascii_int (unnamed_li ''symbol-dash.en'' ''8211'')"
    by (simp_all add: symbol_pages symbol_evals)
  have all_ok: "\<forall>x \<in> set (find_all (grid [symbol_li ''symbol-pi'' ''pi'' ''960'',
                 symbol_li ''symbol-Delta'' ''Delta'' ''916'',
                 unnamed_li ''symbol-dash.en'' ''8211'', symbol_li ''symbol-alpha'' ''alpha'' ''945''])
            (py ''li'') None).
       tag_attrs x (py ''data-latex-name'') = None \<longrightarrow> symbol_ok ascii_int x"
    unfolding greek_items by (simp add: symbol_pages symbol_evals)
  have kept: "filter (\<lambda>li. tag_attrs li (py ''data-latex-name'') \<noteq> None)
       [symbol_li ''symbol-pi'' ''pi'' ''960'', symbol_li ''symbol-Delta'' ''Delta'' ''916'',
        unnamed_li ''symbol-dash.en'' ''8211'', symbol_li ''symbol-alpha'' ''alpha'' ''945''] =
       [symbol_li ''symbol-pi'' ''pi'' ''960'', symbol_li ''symbol-Delta'' ''Delta'' ''916'',
        symbol_li ''symbol-alpha'' ''alpha'' ''945'']"
    by (simp add: symbol_li_def unnamed_li_def py_def)
  have out: "symbol_main ascii_lower ascii_int greek_page =
     \<lparr>stdout = [py ''    ['alpha', 'alpha'],'', py ''    ['Delta', 'Delta'],'', py ''    ['pi', 'pi'],''],
      raised = None\<rparr>"
    by (simp add: symbol_pages symbol_evals)
  note inst = symbol_without_latex
    [where li = "unnamed_li ''symbol-dash.en'' ''8211''" and P = ascii_int
       and symbol_map = "[(92 # py ''pi'', py ''pi'')]" and soup = greek_page and L = ascii_lower
       and ul = "grid [symbol_li ''symbol-pi'' ''pi'' ''960'', symbol_li ''symbol-Delta'' ''Delta'' ''916'',
                 unnamed_li ''symbol-dash.en'' ''8211'', symbol_li ''symbol-alpha'' ''alpha'' ''945'']"]
  from inst none ok have same: "symbol_item ascii_int (unnamed_li ''symbol-dash.en'' ''8211'')
       [(92 # py ''pi'', py ''pi'')] = Inr [(92 # py ''pi'', py ''pi'')]"
    by blast
  from inst greek_grid all_ok have "symbol_main ascii_lower ascii_int greek_page =
     symbol_run ascii_lower ascii_int
       (filter (\<lambda>li. tag_attrs li (py ''data-latex-name'') \<noteq> None)
          (find_all (grid [symbol_li ''symbol-pi'' ''pi'' ''960'', symbol_li ''symbol-Delta'' ''Delta'' ''916'',
                 unnamed_li ''symbol-dash.en'' ''8211'', symbol_li ''symbol-alpha'' ''alpha'' ''945''])
            (py ''li'') None))"
    by blast
  then have "symbol_main ascii_lower ascii_int greek_page =
     symbol_run ascii_lower ascii_int
       [symbol_li ''symbol-pi'' ''pi'' ''960'', symbol_li ''symbol-Delta'' ''Delta'' ''916'',
        symbol_li ''symbol-alpha'' ''alpha'' ''945'']"
    unfolding greek_items kept .
  with none ok same greek_grid out show ?thesis by blast
qed

text \<open>
  C8 on the code. On a page without a symbol-grid list \<^verbatim>\<open>find\<close> returns \<^verbatim>\<open>None\<close> and line 14
  raises \<^verbatim>\<open>AttributeError\<close>, not \<^verbatim>\<open>IndexError\<close>. An item whose \<^verbatim>\<open>data-codepoint\<close> is not an
  integer and that has no \<^verbatim>\<open>id\<close> raises \<^verbatim>\<open>KeyError\<close> at line 21, before line 22 parses
  the code point.
\<close>

theorem symbol_failures_counterexample:
  "symbol_main ascii_lower ascii_int no_grid_page = \<lparr>stdout = [], raised = Some AttributeError\<rparr> \<and>
   raised (symbol_main ascii_lower ascii_int no_grid_page) \<noteq> Some IndexError \<and>
   find_all anon_page (py ''ul'') (Some (py ''symbol-grid'')) = [grid [li_anon]] \<and>
   find_all (grid [li_anon]) (py ''li'') None = [li_anon] \<and>
   tag_attrs li_anon (py ''data-codepoint'') = Some (py ''U+2261'') \<and>
   ascii_int (py ''U+2261'') = None \<and>
   symbol_main ascii_lower ascii_int anon_page = \<lparr>stdout = [], raised = Some KeyError\<rparr> \<and>
   raised (symbol_main ascii_lower ascii_int anon_page) \<noteq> Some ValueError"
  by (simp add: symbol_pages symbol_evals)

text \<open>
  C8, amended. The symbol extractor raises \<^verbatim>\<open>AttributeError\<close> and prints nothing when the
  page has no symbol-grid list. It raises \<^verbatim>\<open>ValueError\<close> and prints nothing when an item of
  the list carries an \<^verbatim>\<open>id\<close> and a \<^verbatim>\<open>data-codepoint\<close> that \<^verbatim>\<open>int\<close> rejects, and all items
  before it pass. The parsed code points do not reach the output: two runs that complete,
  on pages whose items agree in \<^verbatim>\<open>data-latex-name\<close> and \<^verbatim>\<open>id\<close>, print the same.
\<close>

theorem symbol_failures:
  "(find_all soup (py ''ul'') (Some (py ''symbol-grid'')) = [] \<longrightarrow>
      symbol_main L P soup = \<lparr>stdout = [], raised = Some AttributeError\<rparr>) \<and>
   (find_tag soup (py ''ul'') (Some (py ''symbol-grid'')) = Some ul \<and>
    find_all ul (py ''li'') None = pre @ li # post \<and>
    (\<forall>x \<in> set pre. symbol_ok P x) \<and>
    tag_attrs li (py ''id'') = Some i \<and> tag_attrs li (py ''data-codepoint'') = Some c \<and>
    P c = None \<longrightarrow>
      symbol_main L P soup = \<lparr>stdout = [], raised = Some ValueError\<rparr>) \<and>
   (find_tag soup (py ''ul'') (Some (py ''symbol-grid'')) = Some ul \<and>
    find_tag soup' (py ''ul'') (Some (py ''symbol-grid'')) = Some ul' \<and>
    map (\<lambda>li. (tag_attrs li (py ''data-latex-name''), tag_attrs li (py ''id'')))
        (find_all ul (py ''li'') None) =
    map (\<lambda>li. (tag_attrs li (py ''data-latex-name''), tag_attrs li (py ''id'')))
        (find_all ul' (py ''li'') None) \<and>
    raised (symbol_main L P soup) = None \<and> raised (symbol_main L P' soup') = None \<longrightarrow>
      symbol_main L P soup = symbol_main L P' soup')"
proof (intro conjI impI)
  assume "find_all soup (py ''ul'') (Some (py ''symbol-grid'')) = []"
  then show "symbol_main L P soup = \<lparr>stdout = [], raised = Some AttributeError\<rparr>"
    by (simp add: symbol_main_def find_tag_def)
next
  assume a: "find_tag soup (py ''ul'') (Some (py ''symbol-grid'')) = Some ul \<and>
    find_all ul (py ''li'') None = pre @ li # post \<and>
    (\<forall>x \<in> set pre. symbol_ok P x) \<and>
    tag_attrs li (py ''id'') = Some i \<and> tag_attrs li (py ''data-codepoint'') = Some c \<and>
    P c = None"
  then have pre: "\<forall>x \<in> set pre. symbol_ok P x" by blast
  from a have "\<And>m. symbol_item P li m = Inl ValueError"
    unfolding symbol_item_Inl by simp
  from symbol_run_stop [OF pre this] a
  show "symbol_main L P soup = \<lparr>stdout = [], raised = Some ValueError\<rparr>"
    by (simp add: symbol_main_Some)
next
  assume a: "find_tag soup (py ''ul'') (Some (py ''symbol-grid'')) = Some ul \<and>
    find_tag soup' (py ''ul'') (Some (py ''symbol-grid'')) = Some ul' \<and>
    map (\<lambda>li. (latex_of li, tag_attrs li (py ''id''))) (find_all ul (py ''li'') None) =
    map (\<lambda>li. (latex_of li, tag_attrs li (py ''id''))) (find_all ul' (py ''li'') None) \<and>
    raised (symbol_main L P soup) = None \<and> raised (symbol_main L P' soup') = None"
  then have main: "symbol_main L P soup = symbol_run L P (find_all ul (py ''li'') None)"
    and main': "symbol_main L P' soup' = symbol_run L P' (find_all ul' (py ''li'') None)"
    by (simp_all add: symbol_main_Some)
  with a have "raised (symbol_run L P (find_all ul (py ''li'') None)) = None"
    and "raised (symbol_run L P' (find_all ul' (py ''li'') None)) = None"
    by simp_all
  then obtain m m' where loop: "symbol_loop P (find_all ul (py ''li'') None) [] = Inr m"
    and loop': "symbol_loop P' (find_all ul' (py ''li'') None) [] = Inr m'"
    unfolding symbol_run_raised by blast
  from a have "m = m'"
    by (intro symbol_loop_attrs [OF loop loop']) blast
  with loop loop' have "symbol_loop P (find_all ul (py ''li'') None) [] =
    symbol_loop P' (find_all ul' (py ''li'') None) []"
    by simp
  from symbol_run_loop [OF this] main main'
  show "symbol_main L P soup = symbol_main L P' soup'"
    by simp
qed

text \<open>
  On \<open>no_grid_page\<close>; on \<open>badcode_page\<close>, whose second item has the code point
  \<^verbatim>\<open>U+2261\<close>; and on \<open>equiv_page\<close> and \<open>recoded_equiv_page\<close>.
\<close>

theorem symbol_failures_witness:
  "find_all no_grid_page (py ''ul'') (Some (py ''symbol-grid'')) = [] \<and>
   symbol_main ascii_lower ascii_int no_grid_page = \<lparr>stdout = [], raised = Some AttributeError\<rparr> \<and>
   find_tag badcode_page (py ''ul'') (Some (py ''symbol-grid'')) =
     Some (grid [symbol_li ''symbol-equal'' ''equiv'' ''61'',
                 symbol_li ''symbol-equiv'' ''equiv'' ''U+2261'',
                 symbol_li ''symbol-pi'' ''pi'' ''960'']) \<and>
   find_all (grid [symbol_li ''symbol-equal'' ''equiv'' ''61'',
                   symbol_li ''symbol-equiv'' ''equiv'' ''U+2261'',
                   symbol_li ''symbol-pi'' ''pi'' ''960'']) (py ''li'') None =
     [symbol_li ''symbol-equal'' ''equiv'' ''61''] @
     symbol_li ''symbol-equiv'' ''equiv'' ''U+2261'' # [symbol_li ''symbol-pi'' ''pi'' ''960''] \<and>
   symbol_ok ascii_int (symbol_li ''symbol-equal'' ''equiv'' ''61'') \<and>
   tag_attrs (symbol_li ''symbol-equiv'' ''equiv'' ''U+2261'') (py ''id'') = Some (py ''symbol-equiv'') \<and>
   tag_attrs (symbol_li ''symbol-equiv'' ''equiv'' ''U+2261'') (py ''data-codepoint'') = Some (py ''U+2261'') \<and>
   ascii_int (py ''U+2261'') = None \<and>
   symbol_main ascii_lower ascii_int badcode_page = \<lparr>stdout = [], raised = Some ValueError\<rparr> \<and>
   raised (symbol_main ascii_lower ascii_int equiv_page) = None \<and>
   raised (symbol_main ascii_lower ascii_int recoded_equiv_page) = None \<and>
   symbol_main ascii_lower ascii_int equiv_page = symbol_main ascii_lower ascii_int recoded_equiv_page"
proof -
  have none: "find_all no_grid_page (py ''ul'') (Some (py ''symbol-grid'')) = []"
    by (simp add: symbol_pages symbol_evals)
  have bad_grid: "find_tag badcode_page (py ''ul'') (Some (py ''symbol-grid'')) =
     Some (grid [symbol_li ''symbol-equal'' ''equiv'' ''61'',
                 symbol_li ''symbol-equiv'' ''equiv'' ''U+2261'',
                 symbol_li ''symbol-pi'' ''pi'' ''960''])"
    by (simp add: symbol_pages symbol_evals)
  have bad_items: "find_all (grid [symbol_li ''symbol-equal'' ''equiv'' ''61'',
                   symbol_li ''symbol-equiv'' ''equiv'' ''U+2261'',
                   symbol_li ''symbol-pi'' ''pi'' ''960'']) (py ''li'') None =
     [symbol_li ''symbol-equal'' ''equiv'' ''61''] @
     symbol_li ''symbol-equiv'' ''equiv'' ''U+2261'' # [symbol_li ''symbol-pi'' ''pi'' ''960'']"
    by (simp add: symbol_pages symbol_evals)
  have ok: "symbol_ok ascii_int (symbol_li ''symbol-equal'' ''equiv'' ''61'')"
    by (simp add: symbol_pages symbol_evals)
  have i: "tag_attrs (symbol_li ''symbol-equiv'' ''equiv'' ''U+2261'') (py ''id'') = Some (py ''symbol-equiv'')"
    and c: "tag_attrs (symbol_li ''symbol-equiv'' ''equiv'' ''U+2261'') (py ''data-codepoint'') = Some (py ''U+2261'')"
    and v: "ascii_int (py ''U+2261'') = None"
    by (simp_all add: symbol_pages symbol_evals)
  have recoded_grid: "find_tag recoded_equiv_page (py ''ul'') (Some (py ''symbol-grid'')) =
     Some (grid [symbol_li ''symbol-equal'' ''equiv'' ''1'',
                 symbol_li ''symbol-equiv.triple'' ''equiv'' ''2''])"
    by (simp add: symbol_pages symbol_evals)
  have same: "map (\<lambda>li. (tag_attrs li (py ''data-latex-name''), tag_attrs li (py ''id'')))
        (find_all (grid [symbol_li ''symbol-equal'' ''equiv'' ''61'',
                 symbol_li ''symbol-equiv.triple'' ''equiv'' ''8803'']) (py ''li'') None) =
      map (\<lambda>li. (tag_attrs li (py ''data-latex-name''), tag_attrs li (py ''id'')))
        (find_all (grid [symbol_li ''symbol-equal'' ''equiv'' ''1'',
                 symbol_li ''symbol-equiv.triple'' ''equiv'' ''2'']) (py ''li'') None)"
    by (simp add: symbol_pages symbol_evals)
  have fin: "raised (symbol_main ascii_lower ascii_int equiv_page) = None"
    "raised (symbol_main ascii_lower ascii_int recoded_equiv_page) = None"
    by (simp_all add: symbol_pages symbol_evals)
  from symbol_failures [where L = ascii_lower and P = ascii_int and soup = no_grid_page] none
  have r1: "symbol_main ascii_lower ascii_int no_grid_page = \<lparr>stdout = [], raised = Some AttributeError\<rparr>"
    by blast
  from symbol_failures [where L = ascii_lower and P = ascii_int and soup = badcode_page
      and pre = "[symbol_li ''symbol-equal'' ''equiv'' ''61'']"
      and li = "symbol_li ''symbol-equiv'' ''equiv'' ''U+2261''"
      and post = "[symbol_li ''symbol-pi'' ''pi'' ''960'']"
      and i = "py ''symbol-equiv''" and c = "py ''U+2261''"]
    bad_grid bad_items ok i c v
  have r2: "symbol_main ascii_lower ascii_int badcode_page = \<lparr>stdout = [], raised = Some ValueError\<rparr>"
    by simp
  from symbol_failures [where L = ascii_lower and P = ascii_int and soup = equiv_page
      and soup' = recoded_equiv_page and P' = ascii_int]
    equiv_grid recoded_grid same fin
  have r3: "symbol_main ascii_lower ascii_int equiv_page = symbol_main ascii_lower ascii_int recoded_equiv_page"
    by blast
  from none r1 bad_grid bad_items ok i c v r2 fin r3 show ?thesis by blast
qed

text \<open>
  C9. Every item of the list has \<^verbatim>\<open>id\<close> and \<^verbatim>\<open>data-codepoint\<close> read, and the code point
  parsed, whether or not it carries \<^verbatim>\<open>data-latex-name\<close>: when all items before an item
  without \<^verbatim>\<open>data-latex-name\<close> pass, the run raises \<^verbatim>\<open>KeyError\<close> if that item lacks \<^verbatim>\<open>id\<close>
  or \<^verbatim>\<open>data-codepoint\<close>, and \<^verbatim>\<open>ValueError\<close> if it has both and \<^verbatim>\<open>int\<close> rejects the code
  point; either way nothing is printed.
\<close>

theorem symbol_reads_before_check:
  assumes "find_tag soup (py ''ul'') (Some (py ''symbol-grid'')) = Some ul"
    and "find_all ul (py ''li'') None = pre @ li # post"
    and "\<forall>x \<in> set pre. symbol_ok P x"
    and "tag_attrs li (py ''data-latex-name'') = None"
  shows "(tag_attrs li (py ''id'') = None \<or> tag_attrs li (py ''data-codepoint'') = None \<longrightarrow>
            symbol_main L P soup = \<lparr>stdout = [], raised = Some KeyError\<rparr>) \<and>
         (tag_attrs li (py ''id'') \<noteq> None \<and>
          (\<exists>c. tag_attrs li (py ''data-codepoint'') = Some c \<and> P c = None) \<longrightarrow>
            symbol_main L P soup = \<lparr>stdout = [], raised = Some ValueError\<rparr>)"
proof (intro conjI impI)
  assume "tag_attrs li (py ''id'') = None \<or> tag_attrs li (py ''data-codepoint'') = None"
  then have "\<And>m. symbol_item P li m = Inl KeyError"
    unfolding symbol_item_Inl by auto
  from symbol_run_stop [OF assms(3) this] assms(1,2)
  show "symbol_main L P soup = \<lparr>stdout = [], raised = Some KeyError\<rparr>"
    by (simp add: symbol_main_Some)
next
  assume "tag_attrs li (py ''id'') \<noteq> None \<and>
          (\<exists>c. tag_attrs li (py ''data-codepoint'') = Some c \<and> P c = None)"
  then have "\<And>m. symbol_item P li m = Inl ValueError"
    unfolding symbol_item_Inl by auto
  from symbol_run_stop [OF assms(3) this] assms(1,2)
  show "symbol_main L P soup = \<lparr>stdout = [], raised = Some ValueError\<rparr>"
    by (simp add: symbol_main_Some)
qed

text \<open>
  On \<open>missing_page\<close>, whose second item has only an \<^verbatim>\<open>id\<close>, and on \<open>hex_page\<close>, whose
  second item has the code point \<^verbatim>\<open>0x2212\<close>; neither item carries \<^verbatim>\<open>data-latex-name\<close>.
\<close>

theorem symbol_reads_before_check_witness:
  "find_tag missing_page (py ''ul'') (Some (py ''symbol-grid'')) =
     Some (grid [symbol_li ''symbol-pi'' ''pi'' ''960'', li_plain, symbol_li ''symbol-alpha'' ''alpha'' ''945'']) \<and>
   find_all (grid [symbol_li ''symbol-pi'' ''pi'' ''960'', li_plain, symbol_li ''symbol-alpha'' ''alpha'' ''945''])
     (py ''li'') None =
     [symbol_li ''symbol-pi'' ''pi'' ''960''] @ li_plain # [symbol_li ''symbol-alpha'' ''alpha'' ''945''] \<and>
   symbol_ok ascii_int (symbol_li ''symbol-pi'' ''pi'' ''960'') \<and>
   tag_attrs li_plain (py ''data-latex-name'') = None \<and>
   tag_attrs li_plain (py ''data-codepoint'') = None \<and>
   symbol_main ascii_lower ascii_int missing_page = \<lparr>stdout = [], raised = Some KeyError\<rparr> \<and>
   find_tag hex_page (py ''ul'') (Some (py ''symbol-grid'')) =
     Some (grid [symbol_li ''symbol-pi'' ''pi'' ''960'', unnamed_li ''symbol-minus'' ''0x2212'']) \<and>
   find_all (grid [symbol_li ''symbol-pi'' ''pi'' ''960'', unnamed_li ''symbol-minus'' ''0x2212''])
     (py ''li'') None =
     [symbol_li ''symbol-pi'' ''pi'' ''960''] @ unnamed_li ''symbol-minus'' ''0x2212'' # [] \<and>
   tag_attrs (unnamed_li ''symbol-minus'' ''0x2212'') (py ''data-latex-name'') = None \<and>
   tag_attrs (unnamed_li ''symbol-minus'' ''0x2212'') (py ''id'') \<noteq> None \<and>
   tag_attrs (unnamed_li ''symbol-minus'' ''0x2212'') (py ''data-codepoint'') = Some (py ''0x2212'') \<and>
   ascii_int (py ''0x2212'') = None \<and>
   symbol_main ascii_lower ascii_int hex_page = \<lparr>stdout = [], raised = Some ValueError\<rparr>"
proof -
  have g1: "find_tag missing_page (py ''ul'') (Some (py ''symbol-grid'')) =
     Some (grid [symbol_li ''symbol-pi'' ''pi'' ''960'', li_plain, symbol_li ''symbol-alpha'' ''alpha'' ''945''])"
    by (simp add: symbol_pages symbol_evals)
  have l1: "find_all (grid [symbol_li ''symbol-pi'' ''pi'' ''960'', li_plain, symbol_li ''symbol-alpha'' ''alpha'' ''945''])
     (py ''li'') None =
     [symbol_li ''symbol-pi'' ''pi'' ''960''] @ li_plain # [symbol_li ''symbol-alpha'' ''alpha'' ''945'']"
    by (simp add: symbol_pages symbol_evals)
  have ok: "\<forall>x \<in> set [symbol_li ''symbol-pi'' ''pi'' ''960'']. symbol_ok ascii_int x"
    by (simp add: symbol_pages symbol_evals)
  have n1: "tag_attrs li_plain (py ''data-latex-name'') = None"
    and c1: "tag_attrs li_plain (py ''data-codepoint'') = None"
    by (simp_all add: symbol_pages symbol_evals)
  have g2: "find_tag hex_page (py ''ul'') (Some (py ''symbol-grid'')) =
     Some (grid [symbol_li ''symbol-pi'' ''pi'' ''960'', unnamed_li ''symbol-minus'' ''0x2212''])"
    by (simp add: symbol_pages symbol_evals)
  have l2: "find_all (grid [symbol_li ''symbol-pi'' ''pi'' ''960'', unnamed_li ''symbol-minus'' ''0x2212''])
     (py ''li'') None =
     [symbol_li ''symbol-pi'' ''pi'' ''960''] @ unnamed_li ''symbol-minus'' ''0x2212'' # []"
    by (simp add: symbol_pages symbol_evals)
  have n2: "tag_attrs (unnamed_li ''symbol-minus'' ''0x2212'') (py ''data-latex-name'') = None"
    and i2: "tag_attrs (unnamed_li ''symbol-minus'' ''0x2212'') (py ''id'') \<noteq> None"
    and c2: "tag_attrs (unnamed_li ''symbol-minus'' ''0x2212'') (py ''data-codepoint'') = Some (py ''0x2212'')"
    and v2: "ascii_int (py ''0x2212'') = None"
    by (simp_all add: symbol_pages symbol_evals)
  from symbol_reads_before_check [OF g1 l1 ok n1, of ascii_lower] c1
  have r1: "symbol_main ascii_lower ascii_int missing_page = \<lparr>stdout = [], raised = Some KeyError\<rparr>"
    by blast
  from symbol_reads_before_check [OF g2 l2 ok n2, of ascii_lower] i2 c2 v2
  have r2: "symbol_main ascii_lower ascii_int hex_page = \<lparr>stdout = [], raised = Some ValueError\<rparr>"
    by blast
  from ok have ok': "symbol_ok ascii_int (symbol_li ''symbol-pi'' ''pi'' ''960'')"
    by simp
  from g1 l1 ok' n1 c1 r1 g2 l2 n2 i2 c2 v2 r2 show ?thesis by blast
qed

end
